theory Spec2Isabelle
  imports Main "HOL-Library.Sublist" "HOL-Library.Multiset"
begin

section \<open>Texts and Python list primitives\<close>

text \<open>
  A Python \<open>str\<close> is modelled as a \<open>string\<close>: a list of 8-bit characters, each read as
  the code point of the same number (U+0000 to U+00FF). \<open>len\<close> is \<open>length\<close>.
  Python integers are \<open>int\<close>.
\<close>

definition py_insert :: "int \<Rightarrow> 'a \<Rightarrow> 'a list \<Rightarrow> 'a list" where
  \<comment> \<open>\<open>xs.insert(i, x)\<close>: a negative index counts from the end, and the index is
      clamped to the range \<open>0..len(xs)\<close>.\<close>
  "py_insert i x xs =
     (let n = int (length xs);
          j = (if i < 0 then max 0 (i + n) else min i n)
      in take (nat j) xs @ x # drop (nat j) xs)"

definition py_prefix :: "int \<Rightarrow> 'a list \<Rightarrow> 'a list" where
  \<comment> \<open>the slice \<open>xs[:k]\<close>: a negative \<open>k\<close> drops the last \<open>-k\<close> elements.\<close>
  "py_prefix k xs =
     (if k < 0 then take (length xs - nat (- k)) xs else take (nat k) xs)"

section \<open>LLM service: token estimate and history truncation\<close>

text \<open>
  A chat message is the dictionary \<open>{"role": ..., "content": ...}\<close> that the conversation
  service builds; both keys are always present there.
\<close>

record message =
  role :: string
  content :: string

definition default_model :: string where
  "default_model = ''llama-3.1-8b-instant''"

definition max_tokens :: int where
  "max_tokens = 2048"

definition max_context_tokens :: int where
  "max_context_tokens = 32768"

definition estimate_tokens :: "string \<Rightarrow> int" where
  "estimate_tokens text = int (length text) div 4"

text \<open>
  The loop \<open>for i in range(len(messages) - 1, start_idx - 1, -1)\<close> of
  \<open>truncate_messages\<close>. The counter is \<open>i + 1\<close>; the loop ends when \<open>i\<close> falls below
  \<open>start_idx\<close> or at the \<open>break\<close>.
\<close>

fun add_from_end ::
  "message list \<Rightarrow> int list \<Rightarrow> int \<Rightarrow> nat \<Rightarrow> nat \<Rightarrow> message list \<Rightarrow> int \<Rightarrow> message list"
where
  "add_from_end messages message_tokens limit start_idx 0 result total_tokens = result"
| "add_from_end messages message_tokens limit start_idx (Suc i) result total_tokens =
     (if i < start_idx then result
      else if total_tokens + message_tokens ! i \<le> limit
      then add_from_end messages message_tokens limit start_idx i
             (py_insert (int (length result) - (int (length messages) - int i))
                (messages ! i) result)
             (total_tokens + message_tokens ! i)
      else result)"

definition truncate_messages :: "message list \<Rightarrow> int \<Rightarrow> bool \<Rightarrow> message list" where
  "truncate_messages messages limit keep_system =
     (if messages = [] then messages
      else
        let message_tokens = map (\<lambda>msg. estimate_tokens (content msg)) messages;
            total_tokens = sum_list message_tokens
        in if total_tokens \<le> limit then messages
           else if role (messages ! 0) = ''system'' \<and> keep_system
           then add_from_end messages message_tokens limit 1 (length messages)
                  [messages ! 0] (message_tokens ! 0)
           else add_from_end messages message_tokens limit 0 (length messages)
                  [] total_tokens)"

section \<open>Python string primitives\<close>

definition isspace :: "char \<Rightarrow> bool" where
  \<comment> \<open>the white space of \<open>str.split()\<close> and \<open>str.strip()\<close> among U+0000..U+00FF\<close>
  "isspace c =
     (let n = (of_char c :: nat)
      in (9 \<le> n \<and> n \<le> 13) \<or> (28 \<le> n \<and> n \<le> 32) \<or> n = 133 \<or> n = 160)"

definition isupper :: "char \<Rightarrow> bool" where
  \<comment> \<open>the characters that \<open>str.lower()\<close> changes among U+0000..U+00FF\<close>
  "isupper c =
     (let n = (of_char c :: nat)
      in (65 \<le> n \<and> n \<le> 90) \<or> (192 \<le> n \<and> n \<le> 222 \<and> n \<noteq> 215))"

definition lower_char :: "char \<Rightarrow> char" where
  \<comment> \<open>an upper-case letter moves up by 32, which sets bit 5 of its code\<close>
  "lower_char c =
     (if isupper c
      then (case c of Char b0 b1 b2 b3 b4 b5 b6 b7 \<Rightarrow> Char b0 b1 b2 b3 b4 True b6 b7)
      else c)"

definition lower :: "string \<Rightarrow> string" where
  "lower s = map lower_char s"

text \<open>
  \<open>s.split()\<close>: the maximal runs of characters that are not white space; \<open>word\<close> is
  the run being read.
\<close>

fun split_words :: "string \<Rightarrow> string \<Rightarrow> string list" where
  "split_words word [] = (if word = [] then [] else [word])"
| "split_words word (c # cs) =
     (if isspace c
      then (if word = [] then split_words [] cs else word # split_words [] cs)
      else split_words (word @ [c]) cs)"

definition py_split :: "string \<Rightarrow> string list" where
  "py_split s = split_words [] s"

text \<open>\<open>s.split(sep)\<close> for a one-character separator: empty pieces are kept.\<close>

fun split_pieces :: "char \<Rightarrow> string \<Rightarrow> string \<Rightarrow> string list" where
  "split_pieces sep piece [] = [piece]"
| "split_pieces sep piece (c # cs) =
     (if c = sep then piece # split_pieces sep [] cs
      else split_pieces sep (piece @ [c]) cs)"

definition split_on :: "char \<Rightarrow> string \<Rightarrow> string list" where
  "split_on sep s = split_pieces sep [] s"

definition strip :: "string \<Rightarrow> string" where
  "strip s = rev (dropWhile isspace (rev (dropWhile isspace s)))"

text \<open>\<open>str(i)\<close> for a natural number: its decimal digits.\<close>

definition digit_char :: "nat \<Rightarrow> char" where
  "digit_char d =
     (if d = 0 then CHR ''0'' else if d = 1 then CHR ''1'' else if d = 2 then CHR ''2''
      else if d = 3 then CHR ''3'' else if d = 4 then CHR ''4'' else if d = 5 then CHR ''5''
      else if d = 6 then CHR ''6'' else if d = 7 then CHR ''7'' else if d = 8 then CHR ''8''
      else CHR ''9'')"

fun str_nat :: "nat \<Rightarrow> string" where
  "str_nat n = (if n < 10 then [digit_char n] else str_nat (n div 10) @ [digit_char (n mod 10)])"

section \<open>The database\<close>

text \<open>
  The tables of \<open>app.models\<close> that the services read and write, each as the list of its
  rows in insertion order. Rows are inserted with increasing \<open>created_at\<close>, so
  \<open>order_by(Message.created_at)\<close> is the insertion order. A chunk of a document is the
  dictionary of the JSON column, of which only the key \<open>"text"\<close> is read: \<open>None\<close> when
  the key is absent.
\<close>

record conversation =
  conv_id :: int
  conv_user_id :: int
  conv_mode :: string
  conv_title :: string

record message_row =
  msg_conversation_id :: int
  msg_role :: string
  msg_content :: string
  msg_tokens_used :: int
  msg_model_used :: "string option"

type_synonym chunk = "string option"

record document =
  doc_id :: int
  doc_filename :: string
  doc_content :: "string option"
  doc_chunks :: "chunk list option"

record conversation_document =
  link_conversation_id :: int
  link_document_id :: int

record db =
  tbl_conversations :: "conversation list"
  tbl_messages :: "message_row list"
  tbl_documents :: "document list"
  tbl_conversation_documents :: "conversation_document list"

definition next_id :: "int list \<Rightarrow> int" where
  \<comment> \<open>the primary key given to a new row: one more than the largest key of the table\<close>
  "next_id ids = (if ids = [] then 1 else Max (set ids) + 1)"

section \<open>RAG service\<close>

record scored_chunk =
  sc_text :: string
  sc_score :: int
  sc_source :: string

definition chunk_text :: "chunk \<Rightarrow> string" where
  \<comment> \<open>\<open>chunk.get("text", "")\<close>\<close>
  "chunk_text c = (case c of None \<Rightarrow> [] | Some t \<Rightarrow> t)"

definition query_words_of :: "string \<Rightarrow> string set" where
  "query_words_of user_query = set (py_split (lower user_query))"

definition matches :: "string set \<Rightarrow> string \<Rightarrow> int" where
  \<comment> \<open>\<open>len(query_words.intersection(set(text.lower().split())))\<close>\<close>
  "matches query_words txt = int (card (query_words \<inter> set (py_split (lower txt))))"

text \<open>The loop over the stored chunks of one document.\<close>

fun chunk_candidates :: "string set \<Rightarrow> string \<Rightarrow> chunk list \<Rightarrow> scored_chunk list" where
  "chunk_candidates query_words source [] = []"
| "chunk_candidates query_words source (c # cs) =
     (if matches query_words (chunk_text c) > 0
      then \<lparr>sc_text = chunk_text c, sc_score = matches query_words (chunk_text c),
             sc_source = source\<rparr> # chunk_candidates query_words source cs
      else chunk_candidates query_words source cs)"

text \<open>
  The loop over the sentences of a document without chunks; \<open>score\<close> is the number of
  matches of the whole content, computed before the loop.
\<close>

fun sentence_candidates ::
  "string set \<Rightarrow> string \<Rightarrow> int \<Rightarrow> string list \<Rightarrow> scored_chunk list"
where
  "sentence_candidates query_words source score [] = []"
| "sentence_candidates query_words source score (sent # sents) =
     (if \<exists>word \<in> query_words. sublist word (lower sent)
      then \<lparr>sc_text = strip sent, sc_score = score, sc_source = source\<rparr>
             # sentence_candidates query_words source score sents
      else sentence_candidates query_words source score sents)"

definition fallback_candidates :: "string set \<Rightarrow> int \<Rightarrow> string \<Rightarrow> string \<Rightarrow> scored_chunk list" where
  \<comment> \<open>the branch \<open>elif doc.content\<close>, for a non-empty content\<close>
  "fallback_candidates query_words top_k source text =
     (let score = matches query_words text
      in if score > 0
         then sentence_candidates query_words source score
                (py_prefix top_k (split_on (CHR ''.'') text))
         else [])"

definition doc_candidates :: "string set \<Rightarrow> int \<Rightarrow> document \<Rightarrow> scored_chunk list" where
  \<comment> \<open>the body of \<open>for doc in documents\<close>; \<open>None\<close> and the empty value are falsy\<close>
  "doc_candidates query_words top_k doc =
     (case doc_chunks doc of
        Some (c # cs) \<Rightarrow> chunk_candidates query_words (doc_filename doc) (c # cs)
      | _ \<Rightarrow>
         (case doc_content doc of
            Some (ch # text) \<Rightarrow>
              fallback_candidates query_words top_k (doc_filename doc) (ch # text)
          | _ \<Rightarrow> []))"

definition sort_by_score_desc :: "scored_chunk list \<Rightarrow> scored_chunk list" where
  \<comment> \<open>\<open>sort(key=score, reverse=True)\<close>: stable, with every comparison reversed\<close>
  "sort_by_score_desc cs = sort_key (\<lambda>c. - sc_score c) cs"

definition rank_documents :: "document list \<Rightarrow> string \<Rightarrow> int \<Rightarrow> string list" where
  \<comment> \<open>the keyword matching of \<open>retrieve_relevant_chunks\<close>, after the documents are loaded\<close>
  "rank_documents docs user_query top_k =
     (let query_words = query_words_of user_query;
          relevant_chunks = concat (map (doc_candidates query_words top_k) docs)
      in map sc_text (py_prefix top_k (sort_by_score_desc relevant_chunks)))"

definition retrieve_relevant_chunks :: "db \<Rightarrow> int \<Rightarrow> string \<Rightarrow> int \<Rightarrow> string list" where
  "retrieve_relevant_chunks d conversation_id user_query top_k =
     (case find (\<lambda>c. conv_id c = conversation_id) (tbl_conversations d) of
        None \<Rightarrow> []
      | Some conversation \<Rightarrow>
          if conv_mode conversation \<noteq> ''rag'' then []
          else
            let doc_links = filter (\<lambda>l. link_conversation_id l = conversation_id)
                              (tbl_conversation_documents d)
            in if doc_links = [] then []
               else
                 let document_ids = map link_document_id doc_links;
                     docs = filter (\<lambda>doc. doc_id doc \<in> set document_ids) (tbl_documents d)
                 in rank_documents docs user_query top_k)"

text \<open>
  The loop \<open>for i, chunk in enumerate(chunks, 1)\<close> of \<open>construct_rag_context\<close>, with the
  text built so far.
\<close>

fun add_items :: "string \<Rightarrow> nat \<Rightarrow> string list \<Rightarrow> string" where
  "add_items ctx i [] = ctx"
| "add_items ctx i (chunk # chunks) =
     add_items (ctx @ ''['' @ str_nat i @ ''] '' @ chunk @ ''\<newline>\<newline>'') (Suc i) chunks"

definition format_context :: "string list \<Rightarrow> string" where
  \<comment> \<open>\<open>construct_rag_context\<close> after the retrieval\<close>
  "format_context chunks =
     (if chunks = [] then []
      else add_items ''Relevant context from documents:\<newline>\<newline>'' 1 chunks)"

definition construct_rag_context :: "db \<Rightarrow> int \<Rightarrow> string \<Rightarrow> string" where
  "construct_rag_context d conversation_id user_query =
     format_context (retrieve_relevant_chunks d conversation_id user_query 3)"

section \<open>LLM service: the model call\<close>

text \<open>
  The provider's chat completion is a parameter of the model: a function from the request
  to the completion, or to \<open>Inl e\<close> when anything inside the \<open>try\<close> block of
  \<open>generate_response\<close> raises an exception whose \<open>str\<close> is \<open>e\<close>. The temperature of the
  request is the constant 0.7 and is left out.
\<close>

record chat_request =
  req_model :: string
  req_messages :: "message list"
  req_max_tokens :: int

record completion =
  cmp_content :: string
  cmp_total_tokens :: int

type_synonym llm_client = "chat_request \<Rightarrow> string + completion"

record llm_response =
  resp_content :: string
  resp_tokens_used :: int
  resp_model_used :: "string option"

definition prepare_request ::
  "message list \<Rightarrow> string option \<Rightarrow> string option \<Rightarrow> int option \<Rightarrow> chat_request"
where
  \<comment> \<open>the part of \<open>generate_response\<close> before the \<open>try\<close> block; \<open>x or y\<close> takes \<open>y\<close>
      when \<open>x\<close> is \<open>None\<close>, empty or zero\<close>
  "prepare_request msgs model_arg system_prompt max_tokens_arg =
     (let model = (case model_arg of Some (c # m) \<Rightarrow> c # m | _ \<Rightarrow> default_model);
          response_tokens =
            (case max_tokens_arg of
               Some k \<Rightarrow> if k \<noteq> 0 then k else max_tokens
             | None \<Rightarrow> max_tokens);
          chat_messages =
            (case system_prompt of
               Some (c # p) \<Rightarrow> [\<lparr>role = ''system'', content = c # p\<rparr>]
             | _ \<Rightarrow> []) @ msgs
      in \<lparr>req_model = model, req_messages = chat_messages,
          req_max_tokens = response_tokens\<rparr>)"

definition generate_response ::
  "llm_client \<Rightarrow> message list \<Rightarrow> string option \<Rightarrow> string option \<Rightarrow> int option
     \<Rightarrow> string + llm_response"
where
  "generate_response client msgs model_arg system_prompt max_tokens_arg =
     (let request = prepare_request msgs model_arg system_prompt max_tokens_arg
      in case client request of
           Inl e \<Rightarrow> Inl (''LLM API error: '' @ e)
         | Inr response \<Rightarrow>
             Inr \<lparr>resp_content = cmp_content response,
                  resp_tokens_used = cmp_total_tokens response,
                  resp_model_used = Some (req_model request)\<rparr>)"

section \<open>Conversation service\<close>

datatype error = ValueError string

record conversation_create =
  cc_first_message :: string
  cc_mode :: string
  cc_document_ids :: "int list option"

definition load_history :: "db \<Rightarrow> int \<Rightarrow> message list" where
  \<comment> \<open>the query for the messages of the conversation, projected to role and content\<close>
  "load_history d conversation_id =
     map (\<lambda>msg. \<lparr>role = msg_role msg, content = msg_content msg\<rparr>)
       (filter (\<lambda>msg. msg_conversation_id msg = conversation_id) (tbl_messages d))"

definition rag_instructions :: string where
  "rag_instructions =
     ''You are a helpful assistant that answers questions based on '' @
     ''the provided context. Use only the information from the context '' @
     ''to answer. If the context doesn'' @ [CHR 0x27] @
     ''t contain the answer, say so.\<newline>\<newline>''"

definition rag_system_prompt :: "db \<Rightarrow> int \<Rightarrow> string \<Rightarrow> string \<Rightarrow> string option" where
  "rag_system_prompt d conversation_id user_message mode =
     (if mode = ''rag''
      then (let ctx = construct_rag_context d conversation_id user_message
            in if ctx \<noteq> [] then Some (rag_instructions @ ctx) else None)
      else None)"

definition message_history :: "db \<Rightarrow> int \<Rightarrow> string \<Rightarrow> message list" where
  \<comment> \<open>the list \<open>message_history\<close> when \<open>truncate_messages\<close> is called\<close>
  "message_history d conversation_id user_message =
     load_history d conversation_id @ [\<lparr>role = ''user'', content = user_message\<rparr>]"

definition truncated_history :: "db \<Rightarrow> int \<Rightarrow> string \<Rightarrow> message list" where
  \<comment> \<open>the list \<open>message_history\<close> when \<open>generate_response\<close> is called\<close>
  "truncated_history d conversation_id user_message =
     truncate_messages (message_history d conversation_id user_message)
       (max_context_tokens - max_tokens) True"

definition fallback_response :: "string \<Rightarrow> llm_response" where
  "fallback_response e =
     \<lparr>resp_content = ''I apologize, but I encountered an error: '' @ e,
      resp_tokens_used = 0, resp_model_used = None\<rparr>"

definition conversation_generate_response ::
  "llm_client \<Rightarrow> db \<Rightarrow> int \<Rightarrow> string \<Rightarrow> string \<Rightarrow> db \<times> message_row"
where
  \<comment> \<open>\<open>ConversationService._generate_response\<close>; \<open>db.add\<close> appends the row\<close>
  "conversation_generate_response client d conversation_id user_message mode =
     (let system_prompt = rag_system_prompt d conversation_id user_message mode;
          history = truncated_history d conversation_id user_message;
          response =
            (case generate_response client history None system_prompt None of
               Inl e \<Rightarrow> fallback_response e
             | Inr r \<Rightarrow> r);
          assistant_message =
            \<lparr>msg_conversation_id = conversation_id, msg_role = ''assistant'',
             msg_content = resp_content response,
             msg_tokens_used = resp_tokens_used response,
             msg_model_used = resp_model_used response\<rparr>
      in (d\<lparr>tbl_messages := tbl_messages d @ [assistant_message]\<rparr>, assistant_message))"

text \<open>The loop \<open>for doc_id in data.document_ids\<close> of \<open>create_conversation\<close>.\<close>

fun link_documents :: "db \<Rightarrow> int \<Rightarrow> int list \<Rightarrow> db" where
  "link_documents d conversation_id [] = d"
| "link_documents d conversation_id (i # ids) =
     (case find (\<lambda>doc. doc_id doc = i) (tbl_documents d) of
        None \<Rightarrow> link_documents d conversation_id ids
      | Some doc \<Rightarrow>
          link_documents
            (d\<lparr>tbl_conversation_documents := tbl_conversation_documents d @
                 [\<lparr>link_conversation_id = conversation_id, link_document_id = i\<rparr>]\<rparr>)
            conversation_id ids)"

definition user_row :: "int \<Rightarrow> string \<Rightarrow> message_row" where
  \<comment> \<open>a user message; the columns not given take their defaults\<close>
  "user_row conversation_id txt =
     \<lparr>msg_conversation_id = conversation_id, msg_role = ''user'', msg_content = txt,
      msg_tokens_used = 0, msg_model_used = None\<rparr>"

definition create_conversation ::
  "llm_client \<Rightarrow> db \<Rightarrow> int \<Rightarrow> conversation_create \<Rightarrow> db \<times> conversation"
where
  "create_conversation client d user_id data =
     (let first_message = cc_first_message data;
          conversation =
            \<lparr>conv_id = next_id (map conv_id (tbl_conversations d)),
             conv_user_id = user_id, conv_mode = cc_mode data,
             conv_title = (if length first_message > 50 then take 50 first_message @ ''...''
                           else first_message)\<rparr>;
          d1 = d\<lparr>tbl_conversations := tbl_conversations d @ [conversation]\<rparr>;
          d2 = (if cc_mode data = ''rag''
                then (case cc_document_ids data of
                        Some (i # ids) \<Rightarrow> link_documents d1 (conv_id conversation) (i # ids)
                      | _ \<Rightarrow> d1)
                else d1);
          d3 = d2\<lparr>tbl_messages := tbl_messages d2 @
                     [user_row (conv_id conversation) first_message]\<rparr>;
          (d4, assistant_response) =
             conversation_generate_response client d3 (conv_id conversation)
               first_message (cc_mode data)
      in (d4, conversation))"

definition add_message ::
  "llm_client \<Rightarrow> db \<Rightarrow> int \<Rightarrow> string \<Rightarrow> error + (db \<times> message_row)"
where
  "add_message client d conversation_id txt =
     (case find (\<lambda>c. conv_id c = conversation_id) (tbl_conversations d) of
        None \<Rightarrow> Inl (ValueError ''Conversation not found'')
      | Some conversation \<Rightarrow>
          let user_message = user_row conversation_id txt;
              d1 = d\<lparr>tbl_messages := tbl_messages d @ [user_message]\<rparr>;
              (d2, assistant_response) =
                 conversation_generate_response client d1 conversation_id txt
                   (conv_mode conversation)
          in Inr (d2, user_message))"

section \<open>Reference definitions for the properties\<close>

text \<open>
  The suffix scan that the specification describes for the history truncation: the entries
  are given most recent first, each is accepted while the running total stays within the
  budget, and the scan stops at the first one that would exceed it.
\<close>

fun spec_keep_recent :: "int \<Rightarrow> int \<Rightarrow> message list \<Rightarrow> message list" where
  "spec_keep_recent limit running [] = []"
| "spec_keep_recent limit running (m # older) =
     (if running + estimate_tokens (content m) \<le> limit
      then m # spec_keep_recent limit (running + estimate_tokens (content m)) older
      else [])"

text \<open>The texts of the stored chunks of a list of documents, in the order of the scan.\<close>

definition stored_chunk_texts :: "document list \<Rightarrow> string list" where
  "stored_chunk_texts docs =
     concat (map (\<lambda>doc. case doc_chunks doc of None \<Rightarrow> [] | Some cs \<Rightarrow> map chunk_text cs) docs)"

text \<open>
  The score of a text for a query: the number of words the two word sets share, after
  lower-casing and splitting at white space.
\<close>

definition chunk_score :: "string \<Rightarrow> string \<Rightarrow> int" where
  "chunk_score user_query txt =
     int (card (set (py_split (lower user_query)) \<inter> set (py_split (lower txt))))"

text \<open>
  The fallback candidates as the specification words them: of the sentences that contain a
  query word, the first \<open>top_k\<close>, each scored by the words it shares with the query.
\<close>

definition spec_fallback_candidates ::
  "string set \<Rightarrow> int \<Rightarrow> string \<Rightarrow> string \<Rightarrow> scored_chunk list"
where
  "spec_fallback_candidates query_words top_k source text =
     map (\<lambda>sent. \<lparr>sc_text = strip sent, sc_score = matches query_words sent,
                   sc_source = source\<rparr>)
       (py_prefix top_k
          (filter (\<lambda>sent. \<exists>word \<in> query_words. sublist word (lower sent))
             (split_on (CHR ''.'') text)))"

text \<open>
  The input of the truncation as the specification words it: the history with the system
  entry, when there is a system prompt, already in front.
\<close>

definition spec_truncation_input :: "db \<Rightarrow> int \<Rightarrow> string \<Rightarrow> string \<Rightarrow> message list" where
  "spec_truncation_input d conversation_id user_message mode =
     (case rag_system_prompt d conversation_id user_message mode of
        None \<Rightarrow> []
      | Some p \<Rightarrow> [\<lparr>role = ''system'', content = p\<rparr>])
     @ message_history d conversation_id user_message"

text \<open>The assistant row stored when the model call fails with the error text \<open>e\<close>.\<close>

definition fallback_row :: "int \<Rightarrow> string \<Rightarrow> message_row" where
  "fallback_row conversation_id e =
     \<lparr>msg_conversation_id = conversation_id, msg_role = ''assistant'',
      msg_content = ''I apologize, but I encountered an error: LLM API error: '' @ e,
      msg_tokens_used = 0, msg_model_used = None\<rparr>"

text \<open>
  The links that \<open>create_conversation\<close> adds: one for each requested identifier that is
  the identifier of a document, under the identifier of the new conversation.
\<close>

definition new_links :: "db \<Rightarrow> conversation_create \<Rightarrow> conversation_document list" where
  "new_links d data =
     (case cc_document_ids data of
        None \<Rightarrow> []
      | Some ids \<Rightarrow>
          if cc_mode data = ''rag''
          then map (\<lambda>i. \<lparr>link_conversation_id = next_id (map conv_id (tbl_conversations d)),
                         link_document_id = i\<rparr>)
                 (filter (\<lambda>i. i \<in> doc_id ` set (tbl_documents d)) ids)
          else [])"

text \<open>
  A database with one rag conversation whose stored messages cost exactly the budget: an
  assistant reply of 122880 characters (30720 tokens) between two user messages of cost 0,
  and a linked document with a chunk that matches the query \<open>cat\<close>.
\<close>

definition long_reply_db :: db where
  "long_reply_db =
     \<lparr>tbl_conversations = [\<lparr>conv_id = 1, conv_user_id = 1, conv_mode = ''rag'',
                             conv_title = ''cat''\<rparr>],
      tbl_messages =
        [user_row 1 ''cat'',
         \<lparr>msg_conversation_id = 1, msg_role = ''assistant'',
          msg_content = replicate 122880 (CHR ''a''), msg_tokens_used = 30800,
          msg_model_used = Some default_model\<rparr>,
         user_row 1 ''cat''],
      tbl_documents = [\<lparr>doc_id = 7, doc_filename = ''f.txt'', doc_content = None,
                         doc_chunks = Some [Some ''the cat sat'']\<rparr>],
      tbl_conversation_documents = [\<lparr>link_conversation_id = 1, link_document_id = 7\<rparr>]\<rparr>"

section \<open>Properties of the history truncation\<close>

lemma estimate_tokens_nonneg: "0 \<le> estimate_tokens t"
  by (simp add: estimate_tokens_def)

text \<open>
  C7: a message list whose total estimated cost (the sum of \<open>len(content) // 4\<close>) is at
  most the budget is returned unchanged, and the empty list is returned as the empty
  list whatever the budget.
\<close>

theorem truncate_messages_identity:
  "(sum_list (map (\<lambda>msg. int (length (content msg)) div 4) messages) \<le> limit
      \<longrightarrow> truncate_messages messages limit keep_system = messages)
   \<and> truncate_messages [] limit keep_system = []"
  by (simp add: truncate_messages_def estimate_tokens_def Let_def)

theorem truncate_messages_identity_witness:
  "sum_list (map (\<lambda>msg. int (length (content msg)) div 4)
      [\<lparr>role = ''user'', content = ''hello there''\<rparr>,
       \<lparr>role = ''assistant'', content = ''hi''\<rparr>]) \<le> 2
   \<and> truncate_messages
        [\<lparr>role = ''user'', content = ''hello there''\<rparr>,
         \<lparr>role = ''assistant'', content = ''hi''\<rparr>] 2 True
      = [\<lparr>role = ''user'', content = ''hello there''\<rparr>,
         \<lparr>role = ''assistant'', content = ''hi''\<rparr>]"
  using truncate_messages_identity
    [of "[\<lparr>role = ''user'', content = ''hello there''\<rparr>,
          \<lparr>role = ''assistant'', content = ''hi''\<rparr>]" 2 True]
  by simp

section \<open>The history truncation beyond the budget\<close>

text \<open>
  Two lemmas describe what the function returns when the total cost exceeds the budget:
  nothing when the list does not start with a kept system entry, and otherwise the scanned
  recent entries followed by the system entry.
\<close>

lemma py_insert_front: "py_insert 0 x xs = x # xs"
  by (simp add: py_insert_def)

lemma add_from_end_over_budget:
  assumes "limit < running" and "\<forall>t \<in> set toks. 0 \<le> t" and "k \<le> length toks"
  shows "add_from_end msgs toks limit start k result running = result"
proof (cases k)
  case 0
  then show ?thesis by simp
next
  case (Suc i)
  with assms(3) have "toks ! i \<in> set toks" by simp
  with assms(2) have "0 \<le> toks ! i" by blast
  with assms(1) Suc show ?thesis by simp
qed

lemma truncate_messages_without_system:
  assumes "limit < sum_list (map (\<lambda>msg. estimate_tokens (content msg)) msgs)"
    and "\<not> (role (hd msgs) = ''system'' \<and> keep_system)"
  shows "truncate_messages msgs limit keep_system = []"
proof (cases "msgs = []")
  case True
  then show ?thesis by (simp add: truncate_messages_def)
next
  case ne: False
  have nonneg: "\<forall>t \<in> set (map (\<lambda>msg. estimate_tokens (content msg)) msgs). 0 \<le> t"
    by (auto simp: estimate_tokens_nonneg)
  from ne have hd: "msgs ! 0 = hd msgs" by (simp add: hd_conv_nth)
  show ?thesis
    using assms ne hd
    by (auto simp add: truncate_messages_def Let_def
        add_from_end_over_budget [OF assms(1) nonneg])
qed

lemma add_from_end_with_system:
  assumes "k \<le> length msgs" and "msgs = s # rest"
  shows "add_from_end msgs (map (\<lambda>msg. estimate_tokens (content msg)) msgs) limit 1 k
           (drop k msgs @ [s]) running
         = rev (spec_keep_recent limit running (rev (take (k - 1) rest))) @ drop k msgs @ [s]"
  using assms(1)
proof (induction k arbitrary: running)
  case 0
  then show ?case by simp
next
  case (Suc i)
  show ?case
  proof (cases "i < 1")
    case True
    then show ?thesis by simp
  next
    case False
    then obtain j where j: "i = Suc j" by (cases i) auto
    from Suc.prems have lt: "i < length msgs" by simp
    with j assms(2) have jl: "j < length rest" by simp
    have nth: "msgs ! i = rest ! j" using j assms(2) by simp
    have len: "int (length (drop (Suc i) msgs @ [s])) - (int (length msgs) - int i) = 0"
      using lt by simp
    have dr: "drop i msgs = rest ! j # drop (Suc i) msgs"
      using Cons_nth_drop_Suc [OF lt] nth by simp
    have tk: "rev (take i rest) = rest ! j # rev (take j rest)"
      using j jl by (simp add: take_Suc_conv_app_nth)
    let ?c = "estimate_tokens (content (rest ! j))"
    show ?thesis
    proof (cases "running + ?c \<le> limit")
      case True
      have "add_from_end msgs (map (\<lambda>msg. estimate_tokens (content msg)) msgs) limit 1 (Suc i)
              (drop (Suc i) msgs @ [s]) running
            = add_from_end msgs (map (\<lambda>msg. estimate_tokens (content msg)) msgs) limit 1 i
              (drop i msgs @ [s]) (running + ?c)"
        using False True lt nth len
        by (simp del: length_append length_drop add: py_insert_front dr)
      also have "\<dots> = rev (spec_keep_recent limit (running + ?c) (rev (take (i - 1) rest)))
                        @ drop i msgs @ [s]"
        using Suc.IH lt by simp
      finally have step: "add_from_end msgs (map (\<lambda>msg. estimate_tokens (content msg)) msgs)
              limit 1 (Suc i) (drop (Suc i) msgs @ [s]) running
            = rev (spec_keep_recent limit (running + ?c) (rev (take (i - 1) rest)))
                @ drop i msgs @ [s]" .
      have kept: "rev (spec_keep_recent limit running (rev (take i rest)))
            = rev (spec_keep_recent limit (running + ?c) (rev (take j rest))) @ [rest ! j]"
        using True by (simp add: tk)
      have pred: "i - Suc 0 = j" using j by simp
      show ?thesis
        unfolding step by (simp add: kept dr pred)
    next
      case False
      with \<open>\<not> i < 1\<close> lt nth tk show ?thesis by simp
    qed
  qed
qed

lemma truncate_messages_with_system:
  assumes "limit < sum_list (map (\<lambda>msg. estimate_tokens (content msg)) (s # rest))"
    and "role s = ''system''"
  shows "truncate_messages (s # rest) limit True
         = rev (spec_keep_recent limit (estimate_tokens (content s)) (rev rest)) @ [s]"
  using assms add_from_end_with_system [of "length (s # rest)" "s # rest" s rest limit
      "estimate_tokens (content s)"]
  by (simp add: truncate_messages_def Let_def)

text \<open>
  C2: the claim is that the kept entries come out in chronological order, the system entry
  first. On a system entry followed by a user entry of cost 2 and a user entry of cost 1,
  with budget 2, the total 4 exceeds the budget; the system entry and the most recent entry
  are kept, and the function returns the recent entry before the system entry.
\<close>

theorem truncate_messages_system_entry_last:
  "truncate_messages
     [\<lparr>role = ''system'', content = ''ssss''\<rparr>,
      \<lparr>role = ''user'', content = ''aaaaaaaa''\<rparr>,
      \<lparr>role = ''user'', content = ''bbbb''\<rparr>] 2 True
   = [\<lparr>role = ''user'', content = ''bbbb''\<rparr>,
      \<lparr>role = ''system'', content = ''ssss''\<rparr>]"
  by (simp add: truncate_messages_def estimate_tokens_def py_insert_def Let_def numeral_3_eq_3)

text \<open>
  C6: the claim is that the entries after the system entry are kept by a scan from the most
  recent one, the running total starting at the cost of the kept system entry (at 0 when
  there is none). On two user entries of costs 2 and 1 with budget 1, that scan keeps the
  most recent entry; the function returns the empty list, since without a system entry the
  running total starts at the total of the whole list.
\<close>

theorem truncate_messages_drops_recent_entries:
  "truncate_messages
     [\<lparr>role = ''user'', content = ''aaaaaaaa''\<rparr>,
      \<lparr>role = ''user'', content = ''bbbb''\<rparr>] 1 True = []
   \<and> rev (spec_keep_recent 1 0
         (rev [\<lparr>role = ''user'', content = ''aaaaaaaa''\<rparr>,
               \<lparr>role = ''user'', content = ''bbbb''\<rparr>]))
     = [\<lparr>role = ''user'', content = ''bbbb''\<rparr>]"
  by (simp add: truncate_messages_def estimate_tokens_def py_insert_def Let_def numeral_2_eq_2)

section \<open>Properties of the context assembly\<close>

lemma add_items_enumerate:
  "add_items ctx i chunks
   = ctx @ concat (map (\<lambda>(k, chunk). ''['' @ str_nat k @ ''] '' @ chunk @ ''\<newline>\<newline>'')
                         (List.enumerate i chunks))"
  by (induction chunks arbitrary: ctx i) simp_all

text \<open>
  C9: the context of no chunks is the empty string; the context of \<open>N\<close> chunks is the
  preamble line and a blank line, then for \<open>k = 1, ..., N\<close> in the order of the chunks the
  item \<open>[k] chunk\<close> followed by a blank line.
\<close>

theorem format_context_items:
  "format_context [] = []
   \<and> (chunks \<noteq> [] \<longrightarrow>
        format_context chunks
        = ''Relevant context from documents:\<newline>\<newline>''
          @ concat (map (\<lambda>(k, chunk). ''['' @ str_nat k @ ''] '' @ chunk @ ''\<newline>\<newline>'')
                      (zip [1..<Suc (length chunks)] chunks)))"
  by (simp add: format_context_def add_items_enumerate enumerate_eq_zip)

theorem format_context_items_witness:
  "[''alpha'', ''beta''] \<noteq> []
   \<and> format_context [''alpha'', ''beta'']
     = ''Relevant context from documents:\<newline>\<newline>[1] alpha\<newline>\<newline>[2] beta\<newline>\<newline>''"
  using format_context_items [of "[''alpha'', ''beta'']"]
  by (simp add: upt_rec digit_char_def)

section \<open>Properties of the retrieval over stored chunks\<close>

text \<open>
  The sort of the model is the stable sort on decreasing scores: it is the only
  rearrangement of its input whose scores never increase and in which the entries of each
  score keep the order they had in the input.
\<close>

lemma sort_by_score_desc_unique:
  assumes "mset ys = mset cs"
    and "sorted_wrt (\<lambda>a b. sc_score b \<le> sc_score a) ys"
    and "\<And>k. filter (\<lambda>c. sc_score c = k) ys = filter (\<lambda>c. sc_score c = k) cs"
  shows "sort_by_score_desc cs = ys"
  unfolding sort_by_score_desc_def
proof (rule properties_for_sort_key)
  show "mset ys = mset cs" by (rule assms(1))
  show "sorted (map (\<lambda>c. - sc_score c) ys)"
    using assms(2) by (simp add: sorted_map)
  fix k
  show "filter (\<lambda>x. - sc_score k = - sc_score x) ys
        = filter (\<lambda>x. - sc_score k = - sc_score x) cs"
    using assms(3) [of "sc_score k"] by (simp add: eq_commute)
qed

lemma chunk_candidates_eq:
  "chunk_candidates qw src cs
   = map (\<lambda>t. \<lparr>sc_text = t, sc_score = matches qw t, sc_source = src\<rparr>)
       (filter (\<lambda>t. 0 < matches qw t) (map chunk_text cs))"
  by (induction cs) simp_all

lemma insort_key_map:
  assumes "\<forall>c \<in> set (x # xs). g c = f (h c)"
  shows "map h (insort_key g x xs) = insort_key f (h x) (map h xs)"
  using assms by (induction xs) simp_all

lemma sort_key_map:
  assumes "\<forall>c \<in> set xs. g c = f (h c)"
  shows "map h (sort_key g xs) = sort_key f (map h xs)"
  using assms
proof (induction xs)
  case Nil
  then show ?case by simp
next
  case (Cons x xs)
  then have "\<forall>c \<in> set (x # sort_key g xs). g c = f (h c)" by simp
  from insort_key_map [of x "sort_key g xs" g f h, OF this] Cons show ?case by simp
qed

lemma py_prefix_map: "map f (py_prefix k xs) = py_prefix k (map f xs)"
  by (simp add: py_prefix_def take_map)

lemma py_prefix_is_prefix: "prefix (py_prefix k xs) xs"
  by (simp add: py_prefix_def take_is_prefix)

lemma sorted_wrt_py_prefix: "sorted_wrt R xs \<Longrightarrow> sorted_wrt R (py_prefix k xs)"
  by (simp add: py_prefix_def sorted_wrt_take)

lemma matches_chunk_score: "matches (query_words_of q) t = chunk_score q t"
  by (simp add: matches_def chunk_score_def query_words_of_def)

lemma relevant_of_stored:
  assumes "\<forall>doc \<in> set docs. \<exists>c cs. doc_chunks doc = Some (c # cs)"
  shows "concat (map (doc_candidates qw top_k) docs)
         = concat (map (\<lambda>doc. map (\<lambda>t. \<lparr>sc_text = t, sc_score = matches qw t,
                                          sc_source = doc_filename doc\<rparr>)
              (filter (\<lambda>t. 0 < matches qw t)
                 (case doc_chunks doc of None \<Rightarrow> [] | Some cs \<Rightarrow> map chunk_text cs))) docs)"
  using assms
proof (induction docs)
  case Nil
  then show ?case by simp
next
  case (Cons doc docs)
  then obtain c cs where "doc_chunks doc = Some (c # cs)" by auto
  then have "doc_candidates qw top_k doc
      = map (\<lambda>t. \<lparr>sc_text = t, sc_score = matches qw t, sc_source = doc_filename doc\<rparr>)
          (filter (\<lambda>t. 0 < matches qw t)
             (case doc_chunks doc of None \<Rightarrow> [] | Some cs \<Rightarrow> map chunk_text cs))"
    by (simp add: doc_candidates_def chunk_candidates_eq del: chunk_candidates.simps)
  with Cons show ?case by simp
qed

lemma relevant_texts:
  assumes "\<forall>doc \<in> set docs. \<exists>c cs. doc_chunks doc = Some (c # cs)"
  shows "map sc_text (concat (map (doc_candidates qw top_k) docs))
         = filter (\<lambda>t. 0 < matches qw t) (stored_chunk_texts docs)"
  unfolding relevant_of_stored [OF assms] stored_chunk_texts_def
  by (induction docs) (simp_all add: comp_def)

lemma relevant_scores:
  assumes "\<forall>doc \<in> set docs. \<exists>c cs. doc_chunks doc = Some (c # cs)"
    and "c \<in> set (concat (map (doc_candidates qw top_k) docs))"
  shows "sc_score c = matches qw (sc_text c)"
  using assms(2) unfolding relevant_of_stored [OF assms(1)] by auto

lemma rank_documents_stored:
  assumes "\<forall>doc \<in> set docs. \<exists>c cs. doc_chunks doc = Some (c # cs)"
  shows "rank_documents docs q top_k
         = py_prefix top_k (sort_key (\<lambda>t. - chunk_score q t)
             (filter (\<lambda>t. 0 < chunk_score q t) (stored_chunk_texts docs)))"
proof -
  let ?qw = "query_words_of q"
  let ?rel = "concat (map (doc_candidates ?qw top_k) docs)"
  have "\<forall>c \<in> set ?rel. - sc_score c = - matches ?qw (sc_text c)"
    using relevant_scores [OF assms] by simp
  then have "map sc_text (sort_key (\<lambda>c. - sc_score c) ?rel)
             = sort_key (\<lambda>t. - matches ?qw t) (map sc_text ?rel)"
    by (rule sort_key_map)
  then show ?thesis
    by (simp add: rank_documents_def sort_by_score_desc_def py_prefix_map
        relevant_texts [OF assms] matches_chunk_score)
qed

lemma filter_positive_same:
  "0 < k \<Longrightarrow> filter (\<lambda>t. f t = k) (filter (\<lambda>t. (0::int) < f t) xs) = filter (\<lambda>t. f t = k) xs"
  by (induction xs) auto

lemma filter_positive_none:
  "\<not> 0 < k \<Longrightarrow> filter (\<lambda>t. f t = k) (filter (\<lambda>t. (0::int) < f t) xs) = []"
  by (induction xs) auto

text \<open>
  C5: when every document has stored chunks, the retrieval returns at most \<open>top_k\<close> texts
  (\<open>top_k\<close> being a count, not negative); every returned text is the text of a stored chunk
  whose score is positive; the scores of the returned texts never increase along the list;
  and for each score the returned texts of that score are an initial part of the stored
  chunk texts of that score, in their original order.
\<close>

theorem rank_documents_stored_chunks:
  assumes "\<forall>doc \<in> set docs. \<exists>c cs. doc_chunks doc = Some (c # cs)"
  shows "(0 \<le> top_k \<longrightarrow> int (length (rank_documents docs q top_k)) \<le> top_k)
       \<and> (\<forall>t \<in> set (rank_documents docs q top_k).
            t \<in> set (stored_chunk_texts docs) \<and> 0 < chunk_score q t)
       \<and> sorted_wrt (\<lambda>a b. chunk_score q a \<ge> chunk_score q b) (rank_documents docs q top_k)
       \<and> (\<forall>k. prefix (filter (\<lambda>t. chunk_score q t = k) (rank_documents docs q top_k))
                      (filter (\<lambda>t. chunk_score q t = k) (stored_chunk_texts docs)))"
proof -
  let ?pos = "filter (\<lambda>t. 0 < chunk_score q t) (stored_chunk_texts docs)"
  let ?sorted = "sort_key (\<lambda>t. - chunk_score q t) ?pos"
  have eq: "rank_documents docs q top_k = py_prefix top_k ?sorted"
    by (rule rank_documents_stored [OF assms])
  have len: "0 \<le> top_k \<longrightarrow> int (length (py_prefix top_k ?sorted)) \<le> top_k"
    by (auto simp add: py_prefix_def)
  have sub: "set (py_prefix top_k ?sorted) \<subseteq> set ?pos"
    using set_mono_prefix [OF py_prefix_is_prefix [of top_k ?sorted]] by simp
  have "sorted (map (\<lambda>t. - chunk_score q t) ?sorted)"
    by (rule sorted_sort_key)
  then have "sorted_wrt (\<lambda>a b. chunk_score q a \<ge> chunk_score q b) ?sorted"
    by (simp add: sorted_map)
  then have srt: "sorted_wrt (\<lambda>a b. chunk_score q a \<ge> chunk_score q b) (py_prefix top_k ?sorted)"
    by (rule sorted_wrt_py_prefix)
  have stable: "prefix (filter (\<lambda>t. chunk_score q t = k) (py_prefix top_k ?sorted))
                  (filter (\<lambda>t. chunk_score q t = k) (stored_chunk_texts docs))" for k
  proof -
    have "prefix (filter (\<lambda>t. chunk_score q t = k) (py_prefix top_k ?sorted))
            (filter (\<lambda>t. chunk_score q t = k) ?sorted)"
      by (rule filter_mono_prefix [OF py_prefix_is_prefix])
    moreover have "filter (\<lambda>t. chunk_score q t = k) ?sorted
        = filter (\<lambda>t. chunk_score q t = k) ?pos"
      using sort_key_stable [of "\<lambda>t. - chunk_score q t" "- k" ?pos] by simp
    moreover have "prefix (filter (\<lambda>t. chunk_score q t = k) ?pos)
        (filter (\<lambda>t. chunk_score q t = k) (stored_chunk_texts docs))"
      by (cases "0 < k") (simp_all del: filter_filter add: filter_positive_same filter_positive_none)
    ultimately show ?thesis by simp
  qed
  show ?thesis
    unfolding eq
  proof (intro conjI ballI allI)
    show "0 \<le> top_k \<longrightarrow> int (length (py_prefix top_k ?sorted)) \<le> top_k"
      by (rule len)
  next
    fix t assume "t \<in> set (py_prefix top_k ?sorted)"
    with sub have "t \<in> set ?pos" by blast
    then show "t \<in> set (stored_chunk_texts docs)" and "0 < chunk_score q t"
      by simp_all
  next
    show "sorted_wrt (\<lambda>a b. chunk_score q a \<ge> chunk_score q b) (py_prefix top_k ?sorted)"
      by (rule srt)
  next
    fix k
    show "prefix (filter (\<lambda>t. chunk_score q t = k) (py_prefix top_k ?sorted))
            (filter (\<lambda>t. chunk_score q t = k) (stored_chunk_texts docs))"
      by (rule stable)
  qed
qed

theorem rank_documents_stored_chunks_witness:
  "(0::int) \<le> 2
   \<and> int (length (rank_documents
       [\<lparr>doc_id = 1, doc_filename = ''a.txt'', doc_content = None,
          doc_chunks = Some [Some ''the cat sat'', Some ''a bird'', Some ''Cat and dog'']\<rparr>,
        \<lparr>doc_id = 2, doc_filename = ''b.txt'', doc_content = None,
          doc_chunks = Some [Some ''my dog'']\<rparr>]
       ''cat DOG'' 2)) \<le> 2
   \<and> rank_documents
       [\<lparr>doc_id = 1, doc_filename = ''a.txt'', doc_content = None,
          doc_chunks = Some [Some ''the cat sat'', Some ''a bird'', Some ''Cat and dog'']\<rparr>,
        \<lparr>doc_id = 2, doc_filename = ''b.txt'', doc_content = None,
          doc_chunks = Some [Some ''my dog'']\<rparr>]
       ''cat DOG'' 2 = [''Cat and dog'', ''the cat sat'']"
proof -
  let ?docs = "[\<lparr>doc_id = 1, doc_filename = ''a.txt'', doc_content = None,
          doc_chunks = Some [Some ''the cat sat'', Some ''a bird'', Some ''Cat and dog'']\<rparr>,
        \<lparr>doc_id = 2, doc_filename = ''b.txt'', doc_content = None,
          doc_chunks = Some [Some ''my dog'']\<rparr>]"
  have h: "\<forall>doc \<in> set ?docs. \<exists>c cs. doc_chunks doc = Some (c # cs)" by simp
  have v: "rank_documents ?docs ''cat DOG'' 2 = [''Cat and dog'', ''the cat sat'']"
    by code_simp
  from rank_documents_stored_chunks [OF h, of 2 "''cat DOG''"]
  have "int (length (rank_documents ?docs ''cat DOG'' 2)) \<le> 2" by simp
  with v show ?thesis by simp
qed

section \<open>Properties of the fallback on the raw content\<close>

lemma sentence_candidates_eq:
  "sentence_candidates qw src score sents
   = map (\<lambda>sent. \<lparr>sc_text = strip sent, sc_score = score, sc_source = src\<rparr>)
       (filter (\<lambda>sent. \<exists>word \<in> qw. sublist word (lower sent)) sents)"
  by (induction sents) simp_all

text \<open>
  C8, as stated, fails on the code in two ways. For the query \<open>cat\<close>, \<open>top_k = 1\<close> and the
  content \<open>dog. cat\<close>, the first sentence that contains a query word is \<open>cat\<close>, but the
  code looks at the first \<open>top_k\<close> sentences only, here \<open>dog\<close>, and finds no candidate. For
  the query \<open>cat dog\<close> and the content \<open>cat dog. cat\<close>, the sentence \<open>cat dog\<close> shares two
  words with the query, but the code gives it the score of the whole content, which is 1.
\<close>

theorem fallback_counterexample:
  "fallback_candidates (query_words_of ''cat'') 1 ''f.txt'' ''dog. cat''
     \<noteq> spec_fallback_candidates (query_words_of ''cat'') 1 ''f.txt'' ''dog. cat''
   \<and> fallback_candidates (query_words_of ''cat dog'') 2 ''f.txt'' ''cat dog. cat''
     \<noteq> spec_fallback_candidates (query_words_of ''cat dog'') 2 ''f.txt'' ''cat dog. cat''"
proof -
  have a: "fallback_candidates (query_words_of ''cat'') 1 ''f.txt'' ''dog. cat'' = []"
    by code_simp
  have b: "spec_fallback_candidates (query_words_of ''cat'') 1 ''f.txt'' ''dog. cat''
           = [\<lparr>sc_text = ''cat'', sc_score = 1, sc_source = ''f.txt''\<rparr>]"
    by code_simp
  have c: "fallback_candidates (query_words_of ''cat dog'') 2 ''f.txt'' ''cat dog. cat''
           = [\<lparr>sc_text = ''cat dog'', sc_score = 1, sc_source = ''f.txt''\<rparr>,
              \<lparr>sc_text = ''cat'', sc_score = 1, sc_source = ''f.txt''\<rparr>]"
    by code_simp
  have d: "spec_fallback_candidates (query_words_of ''cat dog'') 2 ''f.txt'' ''cat dog. cat''
           = [\<lparr>sc_text = ''cat dog'', sc_score = 2, sc_source = ''f.txt''\<rparr>,
              \<lparr>sc_text = ''cat'', sc_score = 1, sc_source = ''f.txt''\<rparr>]"
    by code_simp
  show ?thesis unfolding a b c d by simp
qed

text \<open>
  C8, amended: for a document without stored chunks and with a non-empty content, the
  candidates are found for that document alone. If the word set of the whole content
  shares no word with the query there is none. Otherwise the content is split at the
  period, only the first \<open>top_k\<close> sentences are looked at, and each of them whose lower-cased
  text contains a query word gives one candidate: the sentence without its surrounding
  white space, scored with the number of query words in the word set of the whole content.
\<close>

theorem doc_candidates_fallback:
  assumes "doc_chunks doc = None \<or> doc_chunks doc = Some []"
    and "doc_content doc = Some body" and "body \<noteq> []"
  shows "doc_candidates query_words top_k doc
         = (if 0 < matches query_words body
            then map (\<lambda>sent. \<lparr>sc_text = strip sent, sc_score = matches query_words body,
                             sc_source = doc_filename doc\<rparr>)
                   (filter (\<lambda>sent. \<exists>word \<in> query_words. sublist word (lower sent))
                      (py_prefix top_k (split_on (CHR ''.'') body)))
            else [])"
proof -
  from assms(3) obtain ch rest where "body = ch # rest" by (cases body) auto
  with assms(1,2) have "doc_candidates query_words top_k doc
      = fallback_candidates query_words top_k (doc_filename doc) body"
    by (auto simp: doc_candidates_def)
  then show ?thesis
    by (simp add: fallback_candidates_def Let_def sentence_candidates_eq)
qed

theorem doc_candidates_fallback_witness:
  "(doc_chunks \<lparr>doc_id = 1, doc_filename = ''f.txt'', doc_content = Some ''Dogs bark. A cat purrs. cat'',
                doc_chunks = None\<rparr> = None
    \<or> doc_chunks \<lparr>doc_id = 1, doc_filename = ''f.txt'', doc_content = Some ''Dogs bark. A cat purrs. cat'',
                doc_chunks = None\<rparr> = Some [])
   \<and> doc_content \<lparr>doc_id = 1, doc_filename = ''f.txt'', doc_content = Some ''Dogs bark. A cat purrs. cat'',
                doc_chunks = None\<rparr> = Some ''Dogs bark. A cat purrs. cat''
   \<and> ''Dogs bark. A cat purrs. cat'' \<noteq> []
   \<and> doc_candidates (query_words_of ''cat'') 2
        \<lparr>doc_id = 1, doc_filename = ''f.txt'', doc_content = Some ''Dogs bark. A cat purrs. cat'',
         doc_chunks = None\<rparr>
      = [\<lparr>sc_text = ''A cat purrs'', sc_score = 1, sc_source = ''f.txt''\<rparr>]"
proof -
  let ?doc = "\<lparr>doc_id = 1, doc_filename = ''f.txt'', doc_content = Some ''Dogs bark. A cat purrs. cat'',
         doc_chunks = None\<rparr>"
  have h1: "doc_chunks ?doc = None \<or> doc_chunks ?doc = Some []" by simp
  have h2: "doc_content ?doc = Some ''Dogs bark. A cat purrs. cat''" by simp
  have h3: "''Dogs bark. A cat purrs. cat'' \<noteq> []" by simp
  have m: "matches (query_words_of ''cat'') ''Dogs bark. A cat purrs. cat'' = 1"
    by code_simp
  have f: "map (\<lambda>sent. \<lparr>sc_text = strip sent, sc_score = 1, sc_source = ''f.txt''\<rparr>)
             (filter (\<lambda>sent. \<exists>word \<in> query_words_of ''cat''. sublist word (lower sent))
                (py_prefix 2 (split_on (CHR ''.'') ''Dogs bark. A cat purrs. cat'')))
           = [\<lparr>sc_text = ''A cat purrs'', sc_score = 1, sc_source = ''f.txt''\<rparr>]"
    by code_simp
  from doc_candidates_fallback [OF h1 h2 h3, of "query_words_of ''cat''" 2]
  have "doc_candidates (query_words_of ''cat'') 2 ?doc
        = [\<lparr>sc_text = ''A cat purrs'', sc_score = 1, sc_source = ''f.txt''\<rparr>]"
    by (simp add: m f)
  with h1 h2 h3 show ?thesis by simp
qed

section \<open>Properties of the reply generation\<close>

lemma budget_value: "max_context_tokens - max_tokens = 30720"
  by (simp add: max_context_tokens_def max_tokens_def)

text \<open>
  C1: the claim is that the history given to the model holds the new user text once. When
  the caller has stored the user message \<open>Hello\<close> of a new conversation, the history built
  for the model, before and after truncation, holds it twice: once loaded from the table
  and once appended. Creating that conversation with a model stub that answers with the
  contents it received and counts the entries stores the answer \<open>HelloHello\<close> with count 2.
\<close>

theorem user_message_sent_twice:
  "message_history
     \<lparr>tbl_conversations = [\<lparr>conv_id = 1, conv_user_id = 1, conv_mode = ''open'',
                             conv_title = ''Hello''\<rparr>],
      tbl_messages = [user_row 1 ''Hello''],
      tbl_documents = [], tbl_conversation_documents = []\<rparr> 1 ''Hello''
   = [\<lparr>role = ''user'', content = ''Hello''\<rparr>, \<lparr>role = ''user'', content = ''Hello''\<rparr>]
   \<and> truncated_history
     \<lparr>tbl_conversations = [\<lparr>conv_id = 1, conv_user_id = 1, conv_mode = ''open'',
                             conv_title = ''Hello''\<rparr>],
      tbl_messages = [user_row 1 ''Hello''],
      tbl_documents = [], tbl_conversation_documents = []\<rparr> 1 ''Hello''
   = [\<lparr>role = ''user'', content = ''Hello''\<rparr>, \<lparr>role = ''user'', content = ''Hello''\<rparr>]
   \<and> tbl_messages (fst (create_conversation
        (\<lambda>request. Inr \<lparr>cmp_content = concat (map content (req_messages request)),
                         cmp_total_tokens = int (length (req_messages request))\<rparr>)
        \<lparr>tbl_conversations = [], tbl_messages = [], tbl_documents = [],
         tbl_conversation_documents = []\<rparr> 1
        \<lparr>cc_first_message = ''Hello'', cc_mode = ''open'', cc_document_ids = None\<rparr>))
   = [user_row 1 ''Hello'',
      \<lparr>msg_conversation_id = 1, msg_role = ''assistant'', msg_content = ''HelloHello'',
       msg_tokens_used = 2, msg_model_used = Some default_model\<rparr>]"
  by (simp add: message_history_def truncated_history_def load_history_def user_row_def
      truncate_messages_def estimate_tokens_def budget_value create_conversation_def
      conversation_generate_response_def generate_response_def prepare_request_def
      rag_system_prompt_def next_id_def Let_def)

lemma rag_system_prompt_nonempty:
  "rag_system_prompt d cid um mode = Some p \<Longrightarrow> \<exists>c rest. p = c # rest"
  by (auto simp: rag_system_prompt_def rag_instructions_def Let_def split: if_splits)

lemma prepare_request_default:
  "prepare_request msgs None (rag_system_prompt d cid um mode) None
   = \<lparr>req_model = default_model,
      req_messages =
        (case rag_system_prompt d cid um mode of
           None \<Rightarrow> []
         | Some p \<Rightarrow> [\<lparr>role = ''system'', content = p\<rparr>]) @ msgs,
      req_max_tokens = 2048\<rparr>"
proof (cases "rag_system_prompt d cid um mode")
  case None
  then show ?thesis by (simp add: prepare_request_def max_tokens_def)
next
  case (Some p)
  with rag_system_prompt_nonempty [OF Some] show ?thesis
    by (auto simp: prepare_request_def max_tokens_def)
qed

lemma retrieve_ignores_messages:
  "retrieve_relevant_chunks (d\<lparr>tbl_messages := ms\<rparr>) cid q k = retrieve_relevant_chunks d cid q k"
  by (simp add: retrieve_relevant_chunks_def Let_def split: option.split)

lemma long_reply_chunks: "retrieve_relevant_chunks long_reply_db 1 ''cat'' 3 = [''the cat sat'']"
proof -
  let ?d = "\<lparr>tbl_conversations = [\<lparr>conv_id = 1, conv_user_id = 1, conv_mode = ''rag'',
                             conv_title = ''cat''\<rparr>],
      tbl_messages = [],
      tbl_documents = [\<lparr>doc_id = 7, doc_filename = ''f.txt'', doc_content = None,
                         doc_chunks = Some [Some ''the cat sat'']\<rparr>],
      tbl_conversation_documents = [\<lparr>link_conversation_id = 1, link_document_id = 7\<rparr>]\<rparr>"
  have "retrieve_relevant_chunks ?d 1 ''cat'' 3 = [''the cat sat'']" by code_simp
  then show ?thesis
    using retrieve_ignores_messages
      [where d = ?d and ms = "tbl_messages long_reply_db" and cid = 1 and q = "''cat''" and k = 3]
    by (simp add: long_reply_db_def)
qed

lemma long_reply_prompt:
  "rag_system_prompt long_reply_db 1 ''cat'' ''rag''
   = Some (rag_instructions @ format_context [''the cat sat''])"
  by (simp add: rag_system_prompt_def construct_rag_context_def long_reply_chunks Let_def
      format_context_def)

lemma long_reply_history:
  "message_history long_reply_db 1 ''cat''
   = [\<lparr>role = ''user'', content = ''cat''\<rparr>,
      \<lparr>role = ''assistant'', content = replicate 122880 (CHR ''a'')\<rparr>,
      \<lparr>role = ''user'', content = ''cat''\<rparr>, \<lparr>role = ''user'', content = ''cat''\<rparr>]"
  by (simp add: message_history_def load_history_def long_reply_db_def user_row_def)

lemma long_reply_truncated:
  "truncated_history long_reply_db 1 ''cat'' = message_history long_reply_db 1 ''cat''"
  unfolding truncated_history_def long_reply_history
  by (simp add: truncate_messages_def estimate_tokens_def max_context_tokens_def
      max_tokens_def Let_def)

lemma long_reply_cost:
  "sum_list (map (\<lambda>msg. estimate_tokens (content msg))
      (req_messages (prepare_request (truncated_history long_reply_db 1 ''cat'') None
         (rag_system_prompt long_reply_db 1 ''cat'' ''rag'') None))) = 30779"
  unfolding long_reply_truncated long_reply_history long_reply_prompt
  by (simp add: prepare_request_def rag_instructions_def format_context_def
      estimate_tokens_def digit_char_def)

text \<open>
  C3, as stated, fails on the code. In \<open>long_reply_db\<close> the query \<open>cat\<close> has a system
  prompt, yet the list given to the truncation is the history alone, not the history with
  the system entry in front; the history costs exactly the budget, so nothing is dropped,
  and the request that reaches the provider, with the system entry, costs 30779 tokens,
  more than the budget of 30720.
\<close>

theorem truncation_counterexample:
  "message_history long_reply_db 1 ''cat''
     \<noteq> spec_truncation_input long_reply_db 1 ''cat'' ''rag''
   \<and> truncated_history long_reply_db 1 ''cat'' = message_history long_reply_db 1 ''cat''
   \<and> max_context_tokens - max_tokens
     < sum_list (map (\<lambda>msg. estimate_tokens (content msg))
         (req_messages (prepare_request (truncated_history long_reply_db 1 ''cat'') None
            (rag_system_prompt long_reply_db 1 ''cat'' ''rag'') None)))"
proof -
  have "length (message_history long_reply_db 1 ''cat'') = 4"
    by (simp add: long_reply_history)
  moreover have "length (spec_truncation_input long_reply_db 1 ''cat'' ''rag'') = 5"
    by (simp add: spec_truncation_input_def long_reply_prompt long_reply_history)
  ultimately have "message_history long_reply_db 1 ''cat''
      \<noteq> spec_truncation_input long_reply_db 1 ''cat'' ''rag''"
    by auto
  then show ?thesis
    by (simp add: long_reply_truncated [symmetric] long_reply_cost budget_value)
qed

text \<open>
  C3, amended: the truncation budget is the maximum context window minus the maximum
  response length, \<open>32768 - 2048 = 30720\<close>; the truncation is applied to the loaded history
  followed by the new user entry, without a system entry; the system entry, when there is a
  system prompt, is put in front of the truncated history afterwards, in the request to
  the provider, so its cost is not counted against the budget.
\<close>

theorem truncation_before_system_entry:
  "max_context_tokens - max_tokens = 30720
   \<and> truncated_history d cid um
     = truncate_messages (load_history d cid @ [\<lparr>role = ''user'', content = um\<rparr>]) 30720 True
   \<and> conversation_generate_response client d cid um mode
     = (let request =
              \<lparr>req_model = default_model,
               req_messages =
                 (case rag_system_prompt d cid um mode of
                    None \<Rightarrow> []
                  | Some p \<Rightarrow> [\<lparr>role = ''system'', content = p\<rparr>])
                 @ truncated_history d cid um,
               req_max_tokens = 2048\<rparr>;
            response =
              (case client request of
                 Inl e \<Rightarrow> fallback_response (''LLM API error: '' @ e)
               | Inr c \<Rightarrow> \<lparr>resp_content = cmp_content c,
                            resp_tokens_used = cmp_total_tokens c,
                            resp_model_used = Some default_model\<rparr>);
            row = \<lparr>msg_conversation_id = cid, msg_role = ''assistant'',
                   msg_content = resp_content response,
                   msg_tokens_used = resp_tokens_used response,
                   msg_model_used = resp_model_used response\<rparr>
        in (d\<lparr>tbl_messages := tbl_messages d @ [row]\<rparr>, row))"
proof (intro conjI)
  show "max_context_tokens - max_tokens = 30720" by (rule budget_value)
  show "truncated_history d cid um
     = truncate_messages (load_history d cid @ [\<lparr>role = ''user'', content = um\<rparr>]) 30720 True"
    by (simp add: truncated_history_def message_history_def budget_value)
  show "conversation_generate_response client d cid um mode = (let request =
              \<lparr>req_model = default_model,
               req_messages =
                 (case rag_system_prompt d cid um mode of
                    None \<Rightarrow> []
                  | Some p \<Rightarrow> [\<lparr>role = ''system'', content = p\<rparr>])
                 @ truncated_history d cid um,
               req_max_tokens = 2048\<rparr>;
            response =
              (case client request of
                 Inl e \<Rightarrow> fallback_response (''LLM API error: '' @ e)
               | Inr c \<Rightarrow> \<lparr>resp_content = cmp_content c,
                            resp_tokens_used = cmp_total_tokens c,
                            resp_model_used = Some default_model\<rparr>);
            row = \<lparr>msg_conversation_id = cid, msg_role = ''assistant'',
                   msg_content = resp_content response,
                   msg_tokens_used = resp_tokens_used response,
                   msg_model_used = resp_model_used response\<rparr>
        in (d\<lparr>tbl_messages := tbl_messages d @ [row]\<rparr>, row))"
    by (simp add: conversation_generate_response_def generate_response_def
        prepare_request_default Let_def split: sum.split)
qed

lemma generate_response_failure:
  assumes "client (prepare_request (truncated_history d cid um) None
             (rag_system_prompt d cid um mode) None) = Inl e"
  shows "conversation_generate_response client d cid um mode
         = (d\<lparr>tbl_messages := tbl_messages d @ [fallback_row cid e]\<rparr>, fallback_row cid e)"
  using assms
  by (simp add: conversation_generate_response_def generate_response_def Let_def
      fallback_response_def fallback_row_def)

lemma find_doc_None: "find (\<lambda>doc. doc_id doc = i) docs = None \<longleftrightarrow> i \<notin> doc_id ` set docs"
  by (auto simp: find_None_iff)

lemma link_documents_eq:
  "link_documents d cid ids
   = d\<lparr>tbl_conversation_documents := tbl_conversation_documents d @
        map (\<lambda>i. \<lparr>link_conversation_id = cid, link_document_id = i\<rparr>)
          (filter (\<lambda>i. i \<in> doc_id ` set (tbl_documents d)) ids)\<rparr>"
proof (induction ids arbitrary: d)
  case Nil
  then show ?case by simp
next
  case (Cons i ids)
  show ?case
  proof (cases "find (\<lambda>doc. doc_id doc = i) (tbl_documents d)")
    case None
    then have "i \<notin> doc_id ` set (tbl_documents d)" by (simp add: find_doc_None)
    with None Cons.IH [of d] show ?thesis by simp
  next
    case (Some doc)
    then have "i \<in> doc_id ` set (tbl_documents d)"
      using find_doc_None [of i "tbl_documents d"] by auto
    with Some Cons.IH show ?thesis by simp
  qed
qed

lemma create_conversation_links:
  "tbl_conversation_documents (fst (create_conversation client d user_id data))
   = tbl_conversation_documents d @ new_links d data"
  by (simp add: create_conversation_def new_links_def Let_def link_documents_eq
      conversation_generate_response_def split: option.split list.split)

lemma create_conversation_id:
  "conv_id (snd (create_conversation client d user_id data))
   = next_id (map conv_id (tbl_conversations d))"
  by (simp add: create_conversation_def Let_def split: prod.split)

lemma next_id_fresh: "next_id ids \<notin> set ids"
proof (cases "ids = []")
  case True
  then show ?thesis by simp
next
  case False
  have "x \<le> Max (set ids)" if "x \<in> set ids" for x
    using that by simp
  then have "x < next_id ids" if "x \<in> set ids" for x
    using that False by (fastforce simp: next_id_def)
  then show ?thesis by blast
qed

lemma retrieve_without_links:
  assumes "filter (\<lambda>l. link_conversation_id l = cid) (tbl_conversation_documents d) = []"
  shows "retrieve_relevant_chunks d cid q k = []"
  using assms
  by (simp add: retrieve_relevant_chunks_def Let_def split: option.split)

lemma no_context_without_chunks:
  assumes "retrieve_relevant_chunks d cid q 3 = []"
  shows "rag_system_prompt d cid q mode = None"
  using assms
  by (simp add: rag_system_prompt_def construct_rag_context_def format_context_def Let_def)

text \<open>
  C10: creating a conversation in rag mode with a non-empty list of document identifiers
  adds a link for exactly the identifiers of existing documents, in the order given, and
  returns the conversation (the function has no error result). When no identifier is
  that of a document no link is added, and then, in a database whose links all belong to
  existing conversations, every later retrieval for the new conversation is empty and no
  system prompt is built, as in open mode.
\<close>

theorem create_conversation_skips_unknown_documents:
  assumes "cc_mode data = ''rag''" and "cc_document_ids data = Some ids" and "ids \<noteq> []"
    and "\<forall>l \<in> set (tbl_conversation_documents d).
           link_conversation_id l \<in> conv_id ` set (tbl_conversations d)"
  shows "tbl_conversation_documents (fst (create_conversation client d user_id data))
         = tbl_conversation_documents d @
           map (\<lambda>i. \<lparr>link_conversation_id = conv_id (snd (create_conversation client d user_id data)),
                     link_document_id = i\<rparr>)
             (filter (\<lambda>i. i \<in> doc_id ` set (tbl_documents d)) ids)
       \<and> ((\<forall>i \<in> set ids. i \<notin> doc_id ` set (tbl_documents d)) \<longrightarrow>
            tbl_conversation_documents (fst (create_conversation client d user_id data))
              = tbl_conversation_documents d
            \<and> (\<forall>q k. retrieve_relevant_chunks (fst (create_conversation client d user_id data))
                        (conv_id (snd (create_conversation client d user_id data))) q k = [])
            \<and> (\<forall>q. rag_system_prompt (fst (create_conversation client d user_id data))
                      (conv_id (snd (create_conversation client d user_id data))) q ''rag'' = None))"
proof -
  let ?d' = "fst (create_conversation client d user_id data)"
  let ?cid = "conv_id (snd (create_conversation client d user_id data))"
  have cid: "?cid = next_id (map conv_id (tbl_conversations d))"
    by (rule create_conversation_id)
  have links: "tbl_conversation_documents ?d' = tbl_conversation_documents d @
           map (\<lambda>i. \<lparr>link_conversation_id = ?cid, link_document_id = i\<rparr>)
             (filter (\<lambda>i. i \<in> doc_id ` set (tbl_documents d)) ids)"
    unfolding create_conversation_links cid using assms(1,2) by (simp add: new_links_def)
  have fresh: "?cid \<notin> conv_id ` set (tbl_conversations d)"
    using next_id_fresh [of "map conv_id (tbl_conversations d)"] cid by simp
  have old: "filter (\<lambda>l. link_conversation_id l = ?cid) (tbl_conversation_documents d) = []"
  proof -
    have "link_conversation_id l \<noteq> ?cid" if "l \<in> set (tbl_conversation_documents d)" for l
      using assms(4) fresh that by metis
    then show ?thesis by (simp add: filter_empty_conv)
  qed
  have none: "tbl_conversation_documents ?d' = tbl_conversation_documents d
      \<and> (\<forall>q k. retrieve_relevant_chunks ?d' ?cid q k = [])
      \<and> (\<forall>q. rag_system_prompt ?d' ?cid q ''rag'' = None)"
    if unknown: "\<forall>i \<in> set ids. i \<notin> doc_id ` set (tbl_documents d)"
  proof -
    from unknown have "filter (\<lambda>i. i \<in> doc_id ` set (tbl_documents d)) ids = []"
      by (simp add: filter_empty_conv)
    with links have same: "tbl_conversation_documents ?d' = tbl_conversation_documents d"
      by simp
    with old have "filter (\<lambda>l. link_conversation_id l = ?cid) (tbl_conversation_documents ?d') = []"
      by simp
    then have r: "retrieve_relevant_chunks ?d' ?cid q k = []" for q k
      by (rule retrieve_without_links)
    then have "rag_system_prompt ?d' ?cid q ''rag'' = None" for q
      by (simp add: no_context_without_chunks)
    with same r show ?thesis by simp
  qed
  from links none show ?thesis by blast
qed

theorem create_conversation_skips_unknown_documents_witness:
  "cc_mode \<lparr>cc_first_message = ''cat'', cc_mode = ''rag'', cc_document_ids = Some [8, 9]\<rparr> = ''rag''
   \<and> cc_document_ids \<lparr>cc_first_message = ''cat'', cc_mode = ''rag'', cc_document_ids = Some [8, 9]\<rparr>
       = Some [8, 9]
   \<and> [8, 9 :: int] \<noteq> []
   \<and> tbl_conversation_documents (fst (create_conversation (\<lambda>request. Inl ''timeout'')
         \<lparr>tbl_conversations = [\<lparr>conv_id = 1, conv_user_id = 1, conv_mode = ''rag'',
                                 conv_title = ''dog''\<rparr>],
          tbl_messages = [],
          tbl_documents = [\<lparr>doc_id = 7, doc_filename = ''f.txt'', doc_content = None,
                             doc_chunks = Some [Some ''the cat sat'']\<rparr>],
          tbl_conversation_documents = [\<lparr>link_conversation_id = 1, link_document_id = 7\<rparr>]\<rparr>
         1 \<lparr>cc_first_message = ''cat'', cc_mode = ''rag'', cc_document_ids = Some [8, 9]\<rparr>))
     = [\<lparr>link_conversation_id = 1, link_document_id = 7\<rparr>]
   \<and> retrieve_relevant_chunks (fst (create_conversation (\<lambda>request. Inl ''timeout'')
         \<lparr>tbl_conversations = [\<lparr>conv_id = 1, conv_user_id = 1, conv_mode = ''rag'',
                                 conv_title = ''dog''\<rparr>],
          tbl_messages = [],
          tbl_documents = [\<lparr>doc_id = 7, doc_filename = ''f.txt'', doc_content = None,
                             doc_chunks = Some [Some ''the cat sat'']\<rparr>],
          tbl_conversation_documents = [\<lparr>link_conversation_id = 1, link_document_id = 7\<rparr>]\<rparr>
         1 \<lparr>cc_first_message = ''cat'', cc_mode = ''rag'', cc_document_ids = Some [8, 9]\<rparr>))
       2 ''cat'' 3 = []"
proof -
  let ?data = "\<lparr>cc_first_message = ''cat'', cc_mode = ''rag'', cc_document_ids = Some [8, 9]\<rparr>"
  let ?d = "\<lparr>tbl_conversations = [\<lparr>conv_id = 1, conv_user_id = 1, conv_mode = ''rag'',
                                 conv_title = ''dog''\<rparr>],
          tbl_messages = [],
          tbl_documents = [\<lparr>doc_id = 7, doc_filename = ''f.txt'', doc_content = None,
                             doc_chunks = Some [Some ''the cat sat'']\<rparr>],
          tbl_conversation_documents = [\<lparr>link_conversation_id = 1, link_document_id = 7\<rparr>]\<rparr>"
  have h1: "cc_mode ?data = ''rag''" by simp
  have h2: "cc_document_ids ?data = Some [8, 9]" by simp
  have h3: "[8, 9 :: int] \<noteq> []" by simp
  have h4: "\<forall>l \<in> set (tbl_conversation_documents ?d).
              link_conversation_id l \<in> conv_id ` set (tbl_conversations ?d)" by simp
  have h5: "\<forall>i \<in> set [8, 9]. i \<notin> doc_id ` set (tbl_documents ?d)" by simp
  have cid: "conv_id (snd (create_conversation (\<lambda>request. Inl ''timeout'') ?d 1 ?data)) = 2"
    by (simp add: create_conversation_id next_id_def)
  from create_conversation_skips_unknown_documents
         [OF h1 h2 h3 h4, of "\<lambda>request. Inl ''timeout''" 1] h5
  have "tbl_conversation_documents (fst (create_conversation (\<lambda>request. Inl ''timeout'') ?d 1 ?data))
          = tbl_conversation_documents ?d
        \<and> retrieve_relevant_chunks (fst (create_conversation (\<lambda>request. Inl ''timeout'') ?d 1 ?data))
            2 ''cat'' 3 = []"
    unfolding cid by blast
  then show ?thesis by simp
qed

lemma create_conversation_messages_failure:
  assumes "\<forall>request. client request = Inl e"
  shows "tbl_messages (fst (create_conversation client d user_id data))
         = tbl_messages d @
           [user_row (next_id (map conv_id (tbl_conversations d))) (cc_first_message data),
            fallback_row (next_id (map conv_id (tbl_conversations d))) e]"
  using assms
  by (simp add: create_conversation_def Let_def link_documents_eq generate_response_failure
      split: option.split list.split)

text \<open>
  C4: when the provider call fails with error text \<open>e\<close>, the reply generation returns
  normally; it stores and returns an assistant message whose content is the apology
  followed by the error description, whose token count is 0 and whose model is null.
  With a provider that always fails, \<open>add_message\<close> on an existing conversation returns
  the user message, not an error, and \<open>create_conversation\<close> stores the user message and
  the fallback message.
\<close>

theorem model_failure_gives_fallback:
  "(client (prepare_request (truncated_history d cid um) None
       (rag_system_prompt d cid um mode) None) = Inl e
     \<longrightarrow> conversation_generate_response client d cid um mode
         = (d\<lparr>tbl_messages := tbl_messages d @ [fallback_row cid e]\<rparr>, fallback_row cid e))
   \<and> (find (\<lambda>c. conv_id c = cid) (tbl_conversations d) \<noteq> None
        \<and> (\<forall>request. client request = Inl e)
     \<longrightarrow> add_message client d cid um
         = Inr (d\<lparr>tbl_messages := tbl_messages d @ [user_row cid um, fallback_row cid e]\<rparr>,
                user_row cid um))
   \<and> ((\<forall>request. client request = Inl e)
     \<longrightarrow> tbl_messages (fst (create_conversation client d user_id data))
         = tbl_messages d @
           [user_row (next_id (map conv_id (tbl_conversations d))) (cc_first_message data),
            fallback_row (next_id (map conv_id (tbl_conversations d))) e])"
proof (intro conjI impI)
  assume "client (prepare_request (truncated_history d cid um) None
       (rag_system_prompt d cid um mode) None) = Inl e"
  then show "conversation_generate_response client d cid um mode
         = (d\<lparr>tbl_messages := tbl_messages d @ [fallback_row cid e]\<rparr>, fallback_row cid e)"
    by (rule generate_response_failure)
next
  assume a: "find (\<lambda>c. conv_id c = cid) (tbl_conversations d) \<noteq> None
        \<and> (\<forall>request. client request = Inl e)"
  then obtain conversation where
    "find (\<lambda>c. conv_id c = cid) (tbl_conversations d) = Some conversation" by auto
  with a show "add_message client d cid um
         = Inr (d\<lparr>tbl_messages := tbl_messages d @ [user_row cid um, fallback_row cid e]\<rparr>,
                user_row cid um)"
    by (simp add: add_message_def Let_def generate_response_failure)
next
  assume "\<forall>request. client request = Inl e"
  then show "tbl_messages (fst (create_conversation client d user_id data))
         = tbl_messages d @
           [user_row (next_id (map conv_id (tbl_conversations d))) (cc_first_message data),
            fallback_row (next_id (map conv_id (tbl_conversations d))) e]"
    by (rule create_conversation_messages_failure)
qed

theorem model_failure_gives_fallback_witness:
  "(\<lambda>request. Inl ''timeout'' :: string + completion)
       (prepare_request
          (truncated_history
             \<lparr>tbl_conversations = [\<lparr>conv_id = 1, conv_user_id = 1, conv_mode = ''open'',
                                     conv_title = ''Hi''\<rparr>],
              tbl_messages = [user_row 1 ''Hi''], tbl_documents = [],
              tbl_conversation_documents = []\<rparr> 1 ''Hi'') None
          (rag_system_prompt
             \<lparr>tbl_conversations = [\<lparr>conv_id = 1, conv_user_id = 1, conv_mode = ''open'',
                                     conv_title = ''Hi''\<rparr>],
              tbl_messages = [user_row 1 ''Hi''], tbl_documents = [],
              tbl_conversation_documents = []\<rparr> 1 ''Hi'' ''open'') None)
     = Inl ''timeout''
   \<and> find (\<lambda>c. conv_id c = 1)
        [\<lparr>conv_id = 1, conv_user_id = 1, conv_mode = ''open'', conv_title = ''Hi''\<rparr>] \<noteq> None
   \<and> snd (conversation_generate_response (\<lambda>request. Inl ''timeout'')
        \<lparr>tbl_conversations = [\<lparr>conv_id = 1, conv_user_id = 1, conv_mode = ''open'',
                                conv_title = ''Hi''\<rparr>],
         tbl_messages = [user_row 1 ''Hi''], tbl_documents = [],
         tbl_conversation_documents = []\<rparr> 1 ''Hi'' ''open'')
     = \<lparr>msg_conversation_id = 1, msg_role = ''assistant'',
        msg_content = ''I apologize, but I encountered an error: LLM API error: timeout'',
        msg_tokens_used = 0, msg_model_used = None\<rparr>
   \<and> add_message (\<lambda>request. Inl ''timeout'')
        \<lparr>tbl_conversations = [\<lparr>conv_id = 1, conv_user_id = 1, conv_mode = ''open'',
                                conv_title = ''Hi''\<rparr>],
         tbl_messages = [user_row 1 ''Hi''], tbl_documents = [],
         tbl_conversation_documents = []\<rparr> 1 ''Hi''
     = Inr (\<lparr>tbl_conversations = [\<lparr>conv_id = 1, conv_user_id = 1, conv_mode = ''open'',
                                     conv_title = ''Hi''\<rparr>],
             tbl_messages = [user_row 1 ''Hi'', user_row 1 ''Hi'', fallback_row 1 ''timeout''],
             tbl_documents = [], tbl_conversation_documents = []\<rparr>,
            user_row 1 ''Hi'')
   \<and> tbl_messages (fst (create_conversation (\<lambda>request. Inl ''timeout'')
        \<lparr>tbl_conversations = [\<lparr>conv_id = 1, conv_user_id = 1, conv_mode = ''open'',
                                conv_title = ''Hi''\<rparr>],
         tbl_messages = [user_row 1 ''Hi''], tbl_documents = [],
         tbl_conversation_documents = []\<rparr> 1
        \<lparr>cc_first_message = ''Hello'', cc_mode = ''open'', cc_document_ids = None\<rparr>))
     = [user_row 1 ''Hi'', user_row 2 ''Hello'', fallback_row 2 ''timeout'']"
  using model_failure_gives_fallback
    [where client = "\<lambda>request. Inl ''timeout''"
       and d = "\<lparr>tbl_conversations = [\<lparr>conv_id = 1, conv_user_id = 1, conv_mode = ''open'',
                                conv_title = ''Hi''\<rparr>],
         tbl_messages = [user_row 1 ''Hi''], tbl_documents = [],
         tbl_conversation_documents = []\<rparr>"
       and cid = 1 and um = "''Hi''" and mode = "''open''" and e = "''timeout''"
       and user_id = 1
       and data = "\<lparr>cc_first_message = ''Hello'', cc_mode = ''open'', cc_document_ids = None\<rparr>"]
  by (simp add: fallback_row_def next_id_def)

end
